theory Spec2Isabelle
  imports Main "HOL-Library.Sublist"
begin

section \<open>Python strings and paths\<close>

text \<open>
  Strings are Python \<^verbatim>\<open>str\<close> values, modelled as character lists. Slices take a
  signed bound as Python does: a negative bound counts from the end, and a bound outside
  the string is clamped.
\<close>

definition slice_to :: "string \<Rightarrow> int \<Rightarrow> string" where
  \<comment> \<open>\<^verbatim>\<open>s[:k]\<close>\<close>
  "slice_to s k = take (if k < 0 then nat (int (length s) + k) else nat k) s"

definition slice_from :: "string \<Rightarrow> int \<Rightarrow> string" where
  \<comment> \<open>\<^verbatim>\<open>s[k:]\<close>\<close>
  "slice_from s k = drop (if k < 0 then nat (int (length s) + k) else nat k) s"

fun rfind_aux :: "char \<Rightarrow> string \<Rightarrow> nat \<Rightarrow> int \<Rightarrow> int" where
  "rfind_aux c [] i found = found"
| "rfind_aux c (x # xs) i found = rfind_aux c xs (Suc i) (if x = c then int i else found)"

definition rfind :: "string \<Rightarrow> char \<Rightarrow> int" where
  \<comment> \<open>\<^verbatim>\<open>s.rfind(c)\<close>: the highest index of \<open>c\<close>, or \<open>-1\<close>\<close>
  "rfind s c = rfind_aux c s 0 (- 1)"

definition startswith :: "string \<Rightarrow> string \<Rightarrow> bool" where
  "startswith s p = (take (length p) s = p)"

definition endswith :: "string \<Rightarrow> string \<Rightarrow> bool" where
  "endswith s p = (length p \<le> length s \<and> drop (length s - length p) s = p)"

fun split_on :: "char \<Rightarrow> string \<Rightarrow> string list" where
  \<comment> \<open>\<^verbatim>\<open>s.split(c)\<close>: never empty, keeps empty fields\<close>
  "split_on c [] = [[]]"
| "split_on c (x # xs) =
     (if x = c then [] # split_on c xs
      else (case split_on c xs of [] \<Rightarrow> [[x]] | w # ws \<Rightarrow> (x # w) # ws))"

fun join_with :: "string \<Rightarrow> string list \<Rightarrow> string" where
  \<comment> \<open>\<^verbatim>\<open>sep.join(parts)\<close>\<close>
  "join_with sep [] = []"
| "join_with sep [p] = p"
| "join_with sep (p # q # ps) = p @ sep @ join_with sep (q # ps)"

definition path_join :: "string \<Rightarrow> string \<Rightarrow> string" where
  \<comment> \<open>\<^verbatim>\<open>os.path.join(a, b)\<close> of \<^verbatim>\<open>posixpath\<close>\<close>
  "path_join a b =
     (if startswith b ''/'' then b
      else if a = [] \<or> endswith a ''/'' then a @ b
      else a @ ''/'' @ b)"

fun norm_comps :: "nat \<Rightarrow> string list \<Rightarrow> string list \<Rightarrow> string list" where
  \<comment> \<open>the component loop of \<^verbatim>\<open>posixpath.normpath\<close>\<close>
  "norm_comps initial_slashes [] new_comps = new_comps"
| "norm_comps initial_slashes (cmp # comps) new_comps =
     (if cmp = [] \<or> cmp = ''.'' then norm_comps initial_slashes comps new_comps
      else if cmp \<noteq> ''..'' \<or> (initial_slashes = 0 \<and> new_comps = [])
              \<or> (new_comps \<noteq> [] \<and> last new_comps = ''..'')
        then norm_comps initial_slashes comps (new_comps @ [cmp])
      else if new_comps \<noteq> [] then norm_comps initial_slashes comps (butlast new_comps)
      else norm_comps initial_slashes comps new_comps)"

definition normpath :: "string \<Rightarrow> string" where
  \<comment> \<open>\<^verbatim>\<open>os.path.normpath\<close> of \<^verbatim>\<open>posixpath\<close>\<close>
  "normpath path =
     (if path = [] then ''.''
      else
        let initial_slashes =
              (if startswith path ''/''
               then (if startswith path ''//'' \<and> \<not> startswith path ''///'' then 2 else 1)
               else (0::nat));
            comps = norm_comps initial_slashes (split_on CHR ''/'' path) [];
            p = replicate initial_slashes CHR ''/'' @ join_with ''/'' comps
        in if p = [] then ''.'' else p)"

section \<open>The key-value text parser\<close>

text \<open>
  Characters are code points below 256. \<^verbatim>\<open>\s\<close> of a \<^verbatim>\<open>str\<close> pattern matches the
  characters for which \<^verbatim>\<open>str.isspace\<close> holds; \<^verbatim>\<open>.\<close> matches everything but a
  line feed.
\<close>

definition is_space :: "char \<Rightarrow> bool" where
  "is_space c = (of_char c \<in> {9, 10, 11, 12, 13, 28, 29, 30, 31, 32, 133, 160 :: nat})"

definition is_dot :: "char \<Rightarrow> bool" where
  "is_dot c = (c \<noteq> CHR 0x0A)"

abbreviation dquote :: char where
  "dquote \<equiv> CHR 0x22"

text \<open>
  The regular expression is run as Python's backtracking matcher runs it. A repetition
  is greedy: it takes every character it can, and gives them back one at a time while
  the rest of the pattern (the continuation \<open>k\<close>) fails. The continuation receives
  the characters taken and the remaining input.
\<close>

fun greedy :: "(char \<Rightarrow> bool) \<Rightarrow> (string \<Rightarrow> string \<Rightarrow> 'a option) \<Rightarrow> string \<Rightarrow> string \<Rightarrow> 'a option" where
  "greedy p k taken [] = k taken []"
| "greedy p k taken (c # cs) =
     (if p c
      then (case greedy p k (taken @ [c]) cs of
              Some r \<Rightarrow> Some r
            | None \<Rightarrow> k taken (c # cs))
      else k taken (c # cs))"

definition star :: "(char \<Rightarrow> bool) \<Rightarrow> (string \<Rightarrow> string \<Rightarrow> 'a option) \<Rightarrow> string \<Rightarrow> 'a option" where
  \<comment> \<open>\<open>p*\<close>\<close>
  "star p k s = greedy p k [] s"

definition plus :: "(char \<Rightarrow> bool) \<Rightarrow> (string \<Rightarrow> string \<Rightarrow> 'a option) \<Rightarrow> string \<Rightarrow> 'a option" where
  \<comment> \<open>\<open>p+\<close>\<close>
  "plus p k s = (case s of [] \<Rightarrow> None | c # cs \<Rightarrow> if p c then greedy p k [c] cs else None)"

definition lit :: "char \<Rightarrow> (string \<Rightarrow> 'a option) \<Rightarrow> string \<Rightarrow> 'a option" where
  "lit ch k s = (case s of [] \<Rightarrow> None | c # cs \<Rightarrow> if c = ch then k cs else None)"

definition at_end :: "'a \<Rightarrow> string \<Rightarrow> 'a option" where
  \<comment> \<open>\<^verbatim>\<open>fullmatch\<close>: the pattern must use up the line\<close>
  "at_end r s = (if s = [] then Some r else None)"

definition kvMatch :: "string \<Rightarrow> (string \<times> string) option" where
  \<comment> \<open>\<^verbatim>\<open>re.compile('\s*"(.+)"\s+"(.+)"\s*').fullmatch(line)\<close>, giving groups 1 and 2\<close>
  "kvMatch line =
     star is_space (\<lambda>_. lit dquote (plus is_dot (\<lambda>g1. lit dquote (plus is_space (\<lambda>_.
       lit dquote (plus is_dot (\<lambda>g2. lit dquote (star is_space (\<lambda>_.
         at_end (g1, g2)))))))))) line"

definition libMatch :: "string \<Rightarrow> string option" where
  \<comment> \<open>\<^verbatim>\<open>re.compile('\s*"path"\s+"(.+)"\s*').fullmatch(line)\<close>, giving group 1\<close>
  "libMatch line =
     star is_space (\<lambda>_. lit dquote (lit CHR ''p'' (lit CHR ''a'' (lit CHR ''t'' (lit CHR ''h''
       (lit dquote (plus is_space (\<lambda>_. lit dquote (plus is_dot (\<lambda>g1. lit dquote
         (star is_space (\<lambda>_. at_end g1)))))))))))) line"

fun universal_newlines :: "string \<Rightarrow> string" where
  \<comment> \<open>text mode reads \<^verbatim>\<open>\r\n\<close> and \<^verbatim>\<open>\r\<close> as \<^verbatim>\<open>\n\<close>\<close>
  "universal_newlines [] = []"
| "universal_newlines [c] = (if c = CHR 0x0D then [CHR 0x0A] else [c])"
| "universal_newlines (c # d # cs) =
     (if c = CHR 0x0D
      then (if d = CHR 0x0A then CHR 0x0A # universal_newlines cs
            else CHR 0x0A # universal_newlines (d # cs))
      else c # universal_newlines (d # cs))"

fun lines_of :: "string \<Rightarrow> string list" where
  \<comment> \<open>the lines a file object yields, each with its line feed\<close>
  "lines_of [] = []"
| "lines_of (c # cs) =
     (if c = CHR 0x0A then [c] # lines_of cs
      else (case lines_of cs of [] \<Rightarrow> [[c]] | l # ls \<Rightarrow> (c # l) # ls))"

definition file_lines :: "string \<Rightarrow> string list" where
  "file_lines text = lines_of (universal_newlines text)"

datatype file_read =
    FileNotFound
  | ReadFailure "string list"
  | FileText string

text \<open>
  \<open>FileNotFound\<close>: \<^verbatim>\<open>open\<close> raises \<^verbatim>\<open>FileNotFoundError\<close>. \<open>ReadFailure ls\<close>: another
  exception is raised after the lines \<open>ls\<close> have been read. \<open>FileText t\<close>: the file
  is read to its end.
\<close>

definition vcf_step :: "string \<Rightarrow> (string \<rightharpoonup> string) \<Rightarrow> (string \<rightharpoonup> string)" where
  "vcf_step line d = (case kvMatch line of None \<Rightarrow> d | Some (k, v) \<Rightarrow> d(k \<mapsto> v))"

definition parse_vcf :: "file_read \<Rightarrow> (string \<rightharpoonup> string)" where
  "parse_vcf f =
     (case f of
        FileNotFound \<Rightarrow> Map.empty
      | ReadFailure ls \<Rightarrow> fold vcf_step ls Map.empty
      | FileText t \<Rightarrow> fold vcf_step (file_lines t) Map.empty)"

definition parse_libs_lines :: "string list \<Rightarrow> string list" where
  "parse_libs_lines ls = List.map_filter libMatch ls"

text \<open>
  The line format as the specification words it: a quoted key and a quoted value,
  separated by white space, with arbitrary white space around them. A line that can be
  read in several ways (a quote inside the key or the value) is read with the longest
  key.
\<close>

definition kv_form :: "string \<Rightarrow> string \<Rightarrow> string \<Rightarrow> bool" where
  "kv_form line k v =
     (\<exists>a b c. line = a @ [dquote] @ k @ [dquote] @ b @ [dquote] @ v @ [dquote] @ c
        \<and> list_all is_space a \<and> list_all is_space b \<and> b \<noteq> [] \<and> list_all is_space c
        \<and> k \<noteq> [] \<and> list_all is_dot k \<and> v \<noteq> [] \<and> list_all is_dot v)"

definition reads_as :: "string \<Rightarrow> string \<Rightarrow> string \<Rightarrow> bool" where
  "reads_as line k v =
     (kv_form line k v \<and> (\<forall>k' v'. kv_form line k' v' \<longrightarrow> length k' \<le> length k))"

section \<open>Values, errors and the file system\<close>

datatype error =
    ValueError
  | AssertionError
  | KeyError
  | TypeError
  | IndexError
  | FileNotFoundError
  | IsADirectoryError
  | NotADirectoryError
  | PermissionError
  | SameFileError
  | JSONDecodeError

function str_nat :: "nat \<Rightarrow> string" where
  "str_nat n =
     (if n < 10 then [''0123456789'' ! n]
      else str_nat (n div 10) @ [''0123456789'' ! (n mod 10)])"
  by pat_completeness auto
termination
  by (relation "measure id") auto

declare str_nat.simps [simp del]

definition str_int :: "int \<Rightarrow> string" where
  \<comment> \<open>\<^verbatim>\<open>str(i)\<close>, also what an f-string writes for an \<^verbatim>\<open>int\<close>\<close>
  "str_int i = (if i < 0 then CHR ''-'' # str_nat (nat (- i)) else str_nat (nat i))"

text \<open>
  Outside the saves directory the file system is a table from path strings to nodes,
  in directory order. A regular file has a flag (may it be read), a modification time
  and its text; a directory has a modification time.

  A time is kept as the integer the engine makes of it, \<^verbatim>\<open>int(round(t * 1000))\<close>
  milliseconds: the engine uses a time in no other way, and since rounding is monotone
  the rounded maximum of a list of times is the maximum of the rounded times.
\<close>

datatype fnode =
    RegFile bool int string
  | Directory int

text \<open>
  Game, title and snapshot records are the dictionaries of the source with their keys
  as fields. A key that may be absent is an option. \<open>save_games_roots\<close> is a Python
  dictionary, kept as the list of its items in insertion order.
\<close>

record game_info =
  install_root :: string
  game_id :: int
  game_name :: string
  save_games_roots :: "(string \<times> string) list option"
  save_games_root :: "string option"

record save_info =
  si_game_info :: game_info
  timestamp :: int
  filename :: string
  is_undo :: bool

text \<open>
  The saves directory (\<^verbatim>\<open><app_data_dir>/saves2\<close>) is the list of its entries, in the
  order \<^verbatim>\<open>os.listdir\<close> gives them. An entry is a file, held as what \<^verbatim>\<open>json.load\<close>
  makes of it (a snapshot record, or text that is not JSON), or a directory of copied
  files, keyed by the path below the directory, each with its modification time and
  text.
\<close>

datatype json_doc =
    Doc save_info
  | NotJson

datatype entry =
    JsonFile json_doc
  | PayloadDir "(string \<times> int \<times> string) list"

record world =
  clock :: int
  ext :: "(string \<times> fnode) list"
  store :: "(string \<times> entry) list"

record engine =
  app_data_dir :: string
  steam_dir :: string
  account_ids :: "int list"
  dry_run :: bool
  max_saves :: int
  ignore_unchanged :: bool
  last_used_save_info :: "save_info option"

text \<open>
  A path the engine builds is either a path outside the saves directory, an entry of
  the saves directory, or a file below an entry.
\<close>

datatype loc =
    Outside string
  | Entry string
  | Below string string

definition loc_join :: "loc \<Rightarrow> string \<Rightarrow> loc" where
  \<comment> \<open>\<^verbatim>\<open>os.path.join(dir, k)\<close>\<close>
  "loc_join d k =
     (case d of
        Outside p \<Rightarrow> Outside (path_join p k)
      | Entry n \<Rightarrow> Below n k
      | Below n j \<Rightarrow> Below n (path_join j k))"

definition loc_append :: "loc \<Rightarrow> string \<Rightarrow> loc" where
  \<comment> \<open>\<^verbatim>\<open>path + suffix\<close>\<close>
  "loc_append d x =
     (case d of
        Outside p \<Rightarrow> Outside (p @ x)
      | Entry n \<Rightarrow> Entry (n @ x)
      | Below n j \<Rightarrow> Below n (j @ x))"

definition path_exists :: "world \<Rightarrow> loc \<Rightarrow> bool" where
  \<comment> \<open>\<^verbatim>\<open>os.path.exists\<close>\<close>
  "path_exists w l =
     (case l of
        Outside p \<Rightarrow> map_of (ext w) p \<noteq> None
      | Entry n \<Rightarrow> map_of (store w) n \<noteq> None
      | Below n k \<Rightarrow>
          (case map_of (store w) n of
             Some (PayloadDir fs) \<Rightarrow> map_of fs k \<noteq> None
           | _ \<Rightarrow> False))"

definition isfile :: "world \<Rightarrow> loc \<Rightarrow> bool" where
  \<comment> \<open>\<^verbatim>\<open>os.path.isfile\<close>\<close>
  "isfile w l =
     (case l of
        Outside p \<Rightarrow> (case map_of (ext w) p of Some (RegFile _ _ _) \<Rightarrow> True | _ \<Rightarrow> False)
      | Entry n \<Rightarrow> (case map_of (store w) n of Some (JsonFile _) \<Rightarrow> True | _ \<Rightarrow> False)
      | Below n k \<Rightarrow>
          (case map_of (store w) n of
             Some (PayloadDir fs) \<Rightarrow> map_of fs k \<noteq> None
           | _ \<Rightarrow> False))"

definition isdir :: "world \<Rightarrow> loc \<Rightarrow> bool" where
  \<comment> \<open>\<^verbatim>\<open>os.path.isdir\<close>\<close>
  "isdir w l =
     (case l of
        Outside p \<Rightarrow> (case map_of (ext w) p of Some (Directory _) \<Rightarrow> True | _ \<Rightarrow> False)
      | Entry n \<Rightarrow> (case map_of (store w) n of Some (PayloadDir _) \<Rightarrow> True | _ \<Rightarrow> False)
      | Below n k \<Rightarrow> False)"

definition getmtime :: "world \<Rightarrow> loc \<Rightarrow> error + int" where
  \<comment> \<open>\<^verbatim>\<open>os.path.getmtime\<close>\<close>
  "getmtime w l =
     (case l of
        Outside p \<Rightarrow>
          (case map_of (ext w) p of
             Some (RegFile _ t _) \<Rightarrow> Inr t
           | Some (Directory t) \<Rightarrow> Inr t
           | None \<Rightarrow> Inl FileNotFoundError)
      | Entry n \<Rightarrow> (if map_of (store w) n \<noteq> None then Inr (clock w) else Inl FileNotFoundError)
      | Below n k \<Rightarrow>
          (case map_of (store w) n of
             Some (PayloadDir fs) \<Rightarrow>
               (case map_of fs k of Some (t, _) \<Rightarrow> Inr t | None \<Rightarrow> Inl FileNotFoundError)
           | _ \<Rightarrow> Inl FileNotFoundError))"

definition read_file :: "world \<Rightarrow> string \<Rightarrow> file_read" where
  \<comment> \<open>\<^verbatim>\<open>open(path)\<close> of a path outside the saves directory, read line by line\<close>
  "read_file w p =
     (case map_of (ext w) p of
        None \<Rightarrow> FileNotFound
      | Some (Directory _) \<Rightarrow> ReadFailure []
      | Some (RegFile readable _ text) \<Rightarrow> if readable then FileText text else ReadFailure [])"

definition upsert :: "'k \<Rightarrow> 'v \<Rightarrow> ('k \<times> 'v) list \<Rightarrow> ('k \<times> 'v) list" where
  \<comment> \<open>write under a name: in place when the name exists, as a new last item otherwise\<close>
  "upsert k v xs =
     (if map_of xs k = None then xs @ [(k, v)]
      else map (\<lambda>(k', v'). if k' = k then (k', v) else (k', v')) xs)"

section \<open>Save root of an autocloud directory\<close>

fun first_difference :: "string \<Rightarrow> string \<Rightarrow> nat option" where
  \<comment> \<open>\<^verbatim>\<open>next((i for i in range(min(len(prevR), len(r))) if prevR[i] != r[i]), None)\<close>\<close>
  "first_difference (a # as) (b # bs) =
     (if a \<noteq> b then Some 0 else map_option Suc (first_difference as bs))"
| "first_difference _ _ = None"

fun prefix_scan :: "string list \<Rightarrow> string \<Rightarrow> nat \<Rightarrow> string \<times> nat" where
  \<comment> \<open>the loop \<^verbatim>\<open>for r in rcf\<close>, on the state \<open>(prevR, firstDifference)\<close>\<close>
  "prefix_scan [] prevR firstDifference = (prevR, firstDifference)"
| "prefix_scan (r # rs) prevR firstDifference =
     prefix_scan rs r
       (case first_difference prevR r of
          None \<Rightarrow> firstDifference
        | Some index \<Rightarrow> if firstDifference > index then index else firstDifference)"

definition find_save_root_from_autoclouds :: "string list \<Rightarrow> string \<Rightarrow> string option" where
  \<comment> \<open>\<^verbatim>\<open>_find_save_root_from_autoclouds(game_info, rcf, autocloud)\<close>; \<open>None\<close> as in Python\<close>
  "find_save_root_from_autoclouds rcf autocloud =
     (case rcf of
        [] \<Rightarrow> None
      | r0 # _ \<Rightarrow>
          let (prevR, firstDifference) = prefix_scan rcf r0 (length r0);
              rPrefix = slice_to prevR (int firstDifference);
              dirSplit = rfind rPrefix CHR ''/''
          in if dirSplit \<noteq> - 1
             then
               let rPrefix = slice_to rPrefix dirSplit;
                   autoTail = slice_from autocloud (- int (length rPrefix))
               in if autoTail = rPrefix
                  then Some (normpath (slice_to autocloud (- int (length rPrefix))))
                  else Some (normpath autocloud)
             else Some (normpath autocloud))"

text \<open>
  The algorithm as the specification words it: the longest common prefix of all entries,
  trimmed back to the last separator, stripped from the end of the marker directory
  when the marker directory ends with it.
\<close>

fun common_prefix :: "string \<Rightarrow> string \<Rightarrow> string" where
  "common_prefix (a # as) (b # bs) = (if a = b then a # common_prefix as bs else [])"
| "common_prefix _ _ = []"

definition spec_trimmed_prefix :: "string list \<Rightarrow> string" where
  "spec_trimmed_prefix rcf =
     (let p = fold common_prefix (tl rcf) (hd rcf)
      in if CHR ''/'' \<in> set p then slice_to p (rfind p CHR ''/'') else [])"

definition spec_save_root :: "string list \<Rightarrow> string \<Rightarrow> string" where
  "spec_save_root rcf marker =
     (let t = spec_trimmed_prefix rcf
      in if endswith marker t then take (length marker - length t) marker else marker)"

definition ebind :: "error + 'a \<Rightarrow> ('a \<Rightarrow> error + 'b) \<Rightarrow> error + 'b" where
  \<comment> \<open>sequencing: an exception skips the rest\<close>
  "ebind m f = (case m of Inl err \<Rightarrow> Inl err | Inr x \<Rightarrow> f x)"

definition sbind ::
  "(error + 'a) \<times> world \<Rightarrow> ('a \<Rightarrow> world \<Rightarrow> (error + 'b) \<times> world) \<Rightarrow> (error + 'b) \<times> world" where
  \<comment> \<open>sequencing with the file system: an exception keeps what was written before it\<close>
  "sbind m f = (case m of (Inl err, w) \<Rightarrow> (Inl err, w) | (Inr x, w) \<Rightarrow> f x w)"

section \<open>Discovery: game directories, save roots, the change manifest\<close>

definition get_savesdir :: "engine \<Rightarrow> string" where
  "get_savesdir e = path_join (app_data_dir e) ''saves2''"

definition get_gamedir :: "engine \<Rightarrow> int \<Rightarrow> error + string list" where
  "get_gamedir e gid =
     (if account_ids e = [] then Inl AssertionError
      else Inr (map (\<lambda>account_id.
             foldl path_join (steam_dir e) [''userdata'', str_int account_id, str_int gid])
           (account_ids e)))"

definition is_on_mmc :: "game_info \<Rightarrow> error + bool" where
  "is_on_mmc gi =
     (if install_root gi = [] then Inl AssertionError
      else Inr (startswith (install_root gi) ''/run''))"

definition get_steamapps_dir :: "engine \<Rightarrow> game_info \<Rightarrow> bool \<Rightarrow> error + string" where
  "get_steamapps_dir e gi is_system_dir =
     (if install_root gi = [] then Inl AssertionError
      else Inr (path_join (if \<not> is_system_dir then install_root gi else steam_dir e) ''steamapps''))"

definition parse_installdir :: "engine \<Rightarrow> game_info \<Rightarrow> world \<Rightarrow> error + string option" where
  "parse_installdir e gi w =
     ebind (get_steamapps_dir e gi False) (\<lambda>app_dir.
       Inr (parse_vcf (read_file w
              (path_join app_dir (''appmanifest_'' @ str_int (game_id gi) @ ''.acf'')))
            ''installdir''))"

definition get_game_saves_root ::
  "engine \<Rightarrow> game_info \<Rightarrow> bool \<Rightarrow> bool \<Rightarrow> world \<Rightarrow> error + string" where
  "get_game_saves_root e gi is_linux_game is_system_dir w =
     ebind (get_steamapps_dir e gi is_system_dir) (\<lambda>steamApps.
       if is_linux_game
       then ebind (parse_installdir e gi w) (\<lambda>installdir.
              case installdir of
                None \<Rightarrow> Inl TypeError
              | Some d \<Rightarrow> Inr (foldl path_join steamApps [''common'', d]))
       else Inr (foldl path_join steamApps
              [''compatdata'', str_int (game_id gi), ''pfx'', ''drive_c'', ''users'', ''steamuser'']))"

definition rglob_parents :: "world \<Rightarrow> string \<Rightarrow> string \<Rightarrow> string list" where
  \<comment> \<open>the parents of the paths below \<open>base\<close> whose last component is \<open>name\<close>\<close>
  "rglob_parents w base name =
     List.map_filter
       (\<lambda>(p, _). if endswith p (''/'' @ name)
                 then (let d = take (length p - Suc (length name)) p
                       in if d = base \<or> startswith d (base @ ''/'') then Some d else None)
                 else None)
       (ext w)"

definition find_autoclouds :: "engine \<Rightarrow> game_info \<Rightarrow> bool \<Rightarrow> world \<Rightarrow> error + string list" where
  "find_autoclouds e gi is_linux_game w =
     ebind (get_game_saves_root e gi is_linux_game False w) (\<lambda>root_dir.
       Inr (rglob_parents w root_dir ''steam_autocloud.vdf''))"

definition rcf_is_valid :: "world \<Rightarrow> string \<Rightarrow> string list \<Rightarrow> bool" where
  "rcf_is_valid w root_dir rcf = list_ex (\<lambda>f. isfile w (Outside (path_join root_dir f))) rcf"

definition addRoots :: "engine \<Rightarrow> game_info \<Rightarrow> bool \<Rightarrow> world \<Rightarrow> error + string list" where
  "addRoots e gi is_system_dir w =
     ebind (get_game_saves_root e gi True is_system_dir w) (\<lambda>linux_root.
     ebind (get_game_saves_root e gi False is_system_dir w) (\<lambda>r.
       Inr (linux_root #
            map (path_join r)
              [''Documents'', ''Application Data'', path_join ''AppData'' ''LocalLow'',
               path_join ''Local Settings'' ''Application Data''])))"

definition search_likely_locations ::
  "engine \<Rightarrow> game_info \<Rightarrow> string list \<Rightarrow> world \<Rightarrow> error + string list" where
  "search_likely_locations e gi rcf w =
     ebind (is_on_mmc gi) (\<lambda>mmc.
     ebind (if mmc then addRoots e gi True w else Inr []) (\<lambda>system_roots.
     ebind (addRoots e gi False w) (\<lambda>own_roots.
       Inr (filter (\<lambda>r. rcf_is_valid w r rcf) (system_roots @ own_roots)))))"

fun dedupe :: "'a list \<Rightarrow> 'a list \<Rightarrow> 'a list" where
  \<comment> \<open>\<^verbatim>\<open>list(dict.fromkeys(xs))\<close>: the first occurrence of each item, in order\<close>
  "dedupe seen [] = []"
| "dedupe seen (x # xs) = (if x \<in> set seen then dedupe seen xs else x # dedupe (x # seen) xs)"

definition find_save_games ::
  "engine \<Rightarrow> game_info \<Rightarrow> string list \<Rightarrow> world \<Rightarrow> error + string list" where
  "find_save_games e gi rcf w =
     ebind (get_gamedir e (game_id gi)) (\<lambda>dirs.
       let foundDirs =
             concat (map (\<lambda>d. filter (\<lambda>x. isdir w (Outside x))
                                 [path_join d ''remote'',
                                  path_join d (path_join ''ac'' ''LinuxXdgDataHome'')]) dirs)
       in ebind (parse_installdir e gi w) (\<lambda>installdir.
            if installdir = None \<or> installdir = Some [] then Inr foundDirs
            else
              ebind (search_likely_locations e gi rcf w) (\<lambda>likely.
              ebind (find_autoclouds e gi True w) (\<lambda>linux_autoclouds.
              ebind (if length linux_autoclouds < 1 then find_autoclouds e gi False w
                     else Inr linux_autoclouds) (\<lambda>autoclouds.
                let autoRoots =
                      List.map_filter
                        (\<lambda>f. case find_save_root_from_autoclouds rcf f of
                                None \<Rightarrow> None
                              | Some r \<Rightarrow> if r = [] then None else Some r)
                        autoclouds
                in Inr (dedupe [] (foundDirs @ likely @ autoRoots)))))))"

definition strip :: "string \<Rightarrow> string" where
  \<comment> \<open>\<^verbatim>\<open>s.strip()\<close>\<close>
  "strip s = rev (dropWhile is_space (rev (dropWhile is_space s)))"

fun rcf_scan :: "string list \<Rightarrow> string option \<Rightarrow> bool \<Rightarrow> string list \<Rightarrow> string list" where
  \<comment> \<open>the loop \<^verbatim>\<open>for l in lines\<close>, on the state \<open>(prevl, skipping, rcf)\<close>\<close>
  "rcf_scan [] prevl skipping rcf = rcf"
| "rcf_scan (l # ls) prevl skipping rcf =
     (let s = strip l
      in if skipping then rcf_scan ls prevl (s \<noteq> ''}'') rcf
         else if s = ''{''
           then (case prevl of
                   None \<Rightarrow> rcf_scan ls None True rcf
                 | Some p \<Rightarrow>
                     if p \<noteq> [] then rcf_scan ls None True (rcf @ [butlast (tl p)])
                     else rcf_scan ls prevl True rcf)
         else rcf_scan ls (Some s) False rcf)"

fun read_rcf_files :: "world \<Rightarrow> string list \<Rightarrow> string list \<Rightarrow> error + string list" where
  \<comment> \<open>the loop \<^verbatim>\<open>for path in paths\<close>\<close>
  "read_rcf_files w [] rcf = Inr rcf"
| "read_rcf_files w (path # paths) rcf =
     (case map_of (ext w) path of
        Some (RegFile readable _ text) \<Rightarrow>
          if readable
          then read_rcf_files w paths
                 (rcf_scan (drop 2 (split_on CHR 0x0A (universal_newlines text))) None False rcf)
          else Inl PermissionError
      | _ \<Rightarrow> read_rcf_files w paths rcf)"

definition roots_dict :: "string list \<Rightarrow> (string \<times> string) list" where
  \<comment> \<open>the suffix of the root at index \<open>idx\<close>: empty for the first, \<^verbatim>\<open>_idx\<close> after it\<close>
  "roots_dict saveRoots =
     map (\<lambda>(idx, dir). (dir, if idx = 0 then [] else ''_'' @ str_nat idx))
       (zip [0 ..< length saveRoots] saveRoots)"

definition read_rcf ::
  "engine \<Rightarrow> game_info \<Rightarrow> world \<Rightarrow> error + (string list option \<times> game_info)" where
  \<comment> \<open>returns the entries and the game record, which the source updates in place\<close>
  "read_rcf e gi w =
     ebind (get_gamedir e (game_id gi)) (\<lambda>dirs.
     ebind (read_rcf_files w (map (\<lambda>d. path_join d ''remotecache.vdf'') dirs) []) (\<lambda>rcf.
       if save_games_roots gi = None
       then ebind (find_save_games e gi rcf w) (\<lambda>saveRoots.
              if length saveRoots < 1 then Inr (None, gi)
              else
                let saveRoots = filter (\<lambda>r. rcf_is_valid w r rcf) saveRoots
                in if length saveRoots < 1 then Inr (None, gi)
                   else Inr (Some rcf, gi\<lparr>save_games_roots := Some (roots_dict saveRoots)\<rparr>))
       else Inr (Some rcf, gi)))"

definition get_game_roots :: "game_info \<Rightarrow> error + (string \<times> string) list" where
  "get_game_roots gi = (case save_games_roots gi of None \<Rightarrow> Inl KeyError | Some roots \<Rightarrow> Inr roots)"

section \<open>The snapshot engine\<close>

definition saveinfo_to_dir :: "save_info \<Rightarrow> loc" where
  \<comment> \<open>\<^verbatim>\<open>os.path.join(self._get_savesdir(), save_info["filename"])\<close>\<close>
  "saveinfo_to_dir si = Entry (filename si)"

definition is_OSError :: "error \<Rightarrow> bool" where
  "is_OSError err =
     (err \<in> {FileNotFoundError, IsADirectoryError, NotADirectoryError, PermissionError, SameFileError})"

text \<open>
  \<^verbatim>\<open>os.remove\<close> takes a path (\<^verbatim>\<open>str\<close>, \<^verbatim>\<open>bytes\<close> or \<^verbatim>\<open>os.PathLike\<close>). Given
  anything else, such as an open file object, it raises \<^verbatim>\<open>TypeError\<close>.
\<close>

datatype remove_arg =
    PathArg loc
  | FileObject loc

definition remove_entry :: "string \<Rightarrow> world \<Rightarrow> world" where
  "remove_entry n w = w\<lparr>store := filter (\<lambda>(k, _). k \<noteq> n) (store w)\<rparr>"

definition os_remove :: "remove_arg \<Rightarrow> world \<Rightarrow> (error + unit) \<times> world" where
  "os_remove a w =
     (case a of
        FileObject _ \<Rightarrow> (Inl TypeError, w)
      | PathArg l \<Rightarrow>
          if isdir w l then (Inl IsADirectoryError, w)
          else if \<not> isfile w l then (Inl FileNotFoundError, w)
          else (case l of
                  Entry n \<Rightarrow> (Inr (), remove_entry n w)
                | Outside p \<Rightarrow> (Inr (), w\<lparr>ext := filter (\<lambda>(k, _). k \<noteq> p) (ext w)\<rparr>)
                | Below n k \<Rightarrow>
                    (case map_of (store w) n of
                       Some (PayloadDir fs) \<Rightarrow>
                         (Inr (), w\<lparr>store := upsert n (PayloadDir (filter (\<lambda>(j, _). j \<noteq> k) fs)) (store w)\<rparr>)
                     | _ \<Rightarrow> (Inl FileNotFoundError, w))))"

definition rmtree :: "loc \<Rightarrow> world \<Rightarrow> world" where
  \<comment> \<open>\<^verbatim>\<open>shutil.rmtree(f, ignore_errors=True)\<close>\<close>
  "rmtree l w =
     (if \<not> isdir w l then w
      else (case l of
              Entry n \<Rightarrow> remove_entry n w
            | Outside p \<Rightarrow>
                w\<lparr>ext := filter (\<lambda>(k, _). k \<noteq> p \<and> \<not> startswith k (p @ ''/'')) (ext w)\<rparr>
            | Below n k \<Rightarrow> w))"

definition upgrade_legacy :: "save_info \<Rightarrow> error + save_info" where
  \<comment> \<open>a record without \<^verbatim>\<open>save_games_roots\<close> gets it from its \<^verbatim>\<open>save_games_root\<close>\<close>
  "upgrade_legacy si =
     (let gi = si_game_info si
      in if save_games_roots gi = None
         then (case save_games_root gi of
                 None \<Rightarrow> Inl KeyError
               | Some r \<Rightarrow>
                   Inr (si\<lparr>si_game_info :=
                          gi\<lparr>save_games_roots := Some [(r, [])], save_games_root := None\<rparr>\<rparr>))
         else Inr si)"

definition file_to_saveinfo :: "engine \<Rightarrow> string \<Rightarrow> world \<Rightarrow> (error + save_info) \<times> world" where
  \<comment> \<open>in the handler of \<^verbatim>\<open>JSONDecodeError\<close> the source calls \<^verbatim>\<open>os.remove(j)\<close>, \<open>j\<close> being the
      open file; only an \<^verbatim>\<open>OSError\<close> of that call is passed over\<close>
  "file_to_saveinfo e f w =
     (case map_of (store w) f of
        None \<Rightarrow> (Inl FileNotFoundError, w)
      | Some (PayloadDir _) \<Rightarrow> (Inl IsADirectoryError, w)
      | Some (JsonFile (Doc si)) \<Rightarrow> (upgrade_legacy si, w)
      | Some (JsonFile NotJson) \<Rightarrow>
          (case os_remove (FileObject (Entry f)) w of
             (Inl err, w') \<Rightarrow> if is_OSError err then (Inl JSONDecodeError, w') else (Inl err, w')
           | (Inr _, w') \<Rightarrow> (Inl JSONDecodeError, w')))"

fun attempt_all :: "engine \<Rightarrow> string list \<Rightarrow> world \<Rightarrow> save_info list \<times> world" where
  \<comment> \<open>\<^verbatim>\<open>attempt_saveinfo\<close> over the files, keeping what is not \<^verbatim>\<open>None\<close>\<close>
  "attempt_all e [] w = ([], w)"
| "attempt_all e (f # fs) w =
     (case file_to_saveinfo e f w of
        (Inl _, w') \<Rightarrow> attempt_all e fs w'
      | (Inr si, w') \<Rightarrow> (case attempt_all e fs w' of (sis, w'') \<Rightarrow> (si # sis, w'')))"

definition get_saveinfos :: "engine \<Rightarrow> world \<Rightarrow> save_info list \<times> world" where
  "get_saveinfos e w =
     (let files = filter (\<lambda>f. endswith f ''.json'') (map fst (store w))
      in case attempt_all e files w of
           (infos, w') \<Rightarrow>
             let infos = sort_key (\<lambda>i. - timestamp i) infos;
                 undos = filter is_undo infos;
                 saves = filter (\<lambda>i. \<not> is_undo i) infos
             in (undos @ saves, w'))"


definition glob_prefix :: "world \<Rightarrow> string \<Rightarrow> string list" where
  "glob_prefix w fname = filter (\<lambda>n. startswith n fname) (map fst (store w))"

fun delete_files :: "string list \<Rightarrow> world \<Rightarrow> world" where
  \<comment> \<open>the loop \<^verbatim>\<open>for f in files\<close>; an \<^verbatim>\<open>OSError\<close> is passed over\<close>
  "delete_files [] w = w"
| "delete_files (f # fs) w =
     delete_files fs
       (if isfile w (Entry f) then snd (os_remove (PathArg (Entry f)) w)
        else if isdir w (Entry f) then rmtree (Entry f) w
        else w)"

definition delete_savedir :: "engine \<Rightarrow> string \<Rightarrow> world \<Rightarrow> (error + unit) \<times> world" where
  "delete_savedir e fname w =
     (let root_dir = get_savesdir e
      in if root_dir = [] then (Inl IndexError, w)
         else if hd root_dir \<noteq> CHR ''/'' then (Inl AssertionError, w)
         else (Inr (), delete_files (glob_prefix w fname) w))"

function delete_oldest ::
  "engine \<Rightarrow> save_info list \<Rightarrow> int \<Rightarrow> world \<Rightarrow> (error + unit) \<times> world" where
  \<comment> \<open>\<^verbatim>\<open>while len(files) > to_keep: todel = files.pop(); ...\<close>\<close>
  "delete_oldest e files to_keep w =
     (if int (length files) > to_keep
      then (if files = [] then (Inl IndexError, w)
            else (case delete_savedir e (filename (last files)) w of
                    (Inl err, w') \<Rightarrow> (Inl err, w')
                  | (Inr _, w') \<Rightarrow> delete_oldest e (butlast files) to_keep w'))
      else (Inr (), w))"
  by pat_completeness auto
termination
  by (relation "measure (\<lambda>(e, files, to_keep, w). length files)") auto

declare delete_oldest.simps [simp del]

definition cull_old_saves :: "engine \<Rightarrow> world \<Rightarrow> (error + unit) \<times> world" where
  \<comment> \<open>reads no \<^verbatim>\<open>dry_run\<close> flag\<close>
  "cull_old_saves e w =
     (case get_saveinfos e w of
        (infos, w1) \<Rightarrow>
          let undos = filter is_undo infos;
              saves = filter (\<lambda>i. \<not> is_undo i) infos
          in sbind (delete_oldest e undos 1 w1) (\<lambda>_ w2. delete_oldest e saves (max_saves e) w2))"

definition snapshot_name :: "bool \<Rightarrow> int \<Rightarrow> int \<Rightarrow> string" where
  \<comment> \<open>\<^verbatim>\<open>f'{ "undo" if is_undo else "save" }_{ game_id }_{ ts }'\<close>\<close>
  "snapshot_name undo gid ts =
     (if undo then ''undo'' else ''save'') @ ''_'' @ str_int gid @ ''_'' @ str_int ts"

definition write_json :: "loc \<Rightarrow> save_info \<Rightarrow> world \<Rightarrow> (error + unit) \<times> world" where
  \<comment> \<open>\<^verbatim>\<open>with open(path, 'w') as fp: json.dump(si, fp, indent=1)\<close>\<close>
  "write_json l si w =
     (case l of
        Entry n \<Rightarrow>
          (case map_of (store w) n of
             Some (PayloadDir _) \<Rightarrow> (Inl IsADirectoryError, w)
           | _ \<Rightarrow> (Inr (), w\<lparr>store := upsert n (JsonFile (Doc si)) (store w)\<rparr>))
      | _ \<Rightarrow> (Inl FileNotFoundError, w))"

definition create_savedir ::
  "engine \<Rightarrow> game_info \<Rightarrow> bool \<Rightarrow> world \<Rightarrow> (error + save_info) \<times> world" where
  "create_savedir e gi undo w =
     (case save_games_roots gi of
        None \<Rightarrow> (Inl KeyError, w)
      | Some roots \<Rightarrow>
          if roots = [] then (Inl AssertionError, w)
          else
            let ts = clock w;
                si = \<lparr>si_game_info = gi, timestamp = ts,
                      filename = snapshot_name undo (game_id gi) ts, is_undo = undo\<rparr>;
                path = saveinfo_to_dir si
            in if \<not> dry_run e
               then sbind (write_json (loc_append path ''.json'') si w) (\<lambda>_ w'. (Inr si, w'))
               else (Inr si, w))"

definition read_node :: "world \<Rightarrow> loc \<Rightarrow> error + int \<times> string" where
  \<comment> \<open>what \<^verbatim>\<open>shutil.copy2\<close> reads of its source: the modification time and the text\<close>
  "read_node w l =
     (case l of
        Outside p \<Rightarrow>
          (case map_of (ext w) p of
             None \<Rightarrow> Inl FileNotFoundError
           | Some (Directory _) \<Rightarrow> Inl IsADirectoryError
           | Some (RegFile readable t text) \<Rightarrow> if readable then Inr (t, text) else Inl PermissionError)
      | Below n k \<Rightarrow>
          (case map_of (store w) n of
             Some (PayloadDir fs) \<Rightarrow>
               (case map_of fs k of None \<Rightarrow> Inl FileNotFoundError | Some f \<Rightarrow> Inr f)
           | _ \<Rightarrow> Inl FileNotFoundError)
      | Entry n \<Rightarrow> Inl FileNotFoundError)"

definition write_node :: "loc \<Rightarrow> int \<times> string \<Rightarrow> world \<Rightarrow> (error + unit) \<times> world" where
  "write_node l f w =
     (case l of
        Outside p \<Rightarrow>
          (case map_of (ext w) p of
             Some (Directory _) \<Rightarrow> (Inl IsADirectoryError, w)
           | _ \<Rightarrow> (Inr (), w\<lparr>ext := upsert p (RegFile True (fst f) (snd f)) (ext w)\<rparr>))
      | Below n k \<Rightarrow>
          (case map_of (store w) n of
             Some (PayloadDir fs) \<Rightarrow>
               (Inr (), w\<lparr>store := upsert n (PayloadDir (upsert k f fs)) (store w)\<rparr>)
           | Some (JsonFile _) \<Rightarrow> (Inl NotADirectoryError, w)
           | None \<Rightarrow> (Inl FileNotFoundError, w))
      | Entry n \<Rightarrow> (Inl IsADirectoryError, w))"

fun make_dirs :: "string list \<Rightarrow> world \<Rightarrow> (error + unit) \<times> world" where
  "make_dirs [] w = (Inr (), w)"
| "make_dirs (d # ds) w =
     (case map_of (ext w) d of
        None \<Rightarrow> make_dirs ds (w\<lparr>ext := ext w @ [(d, Directory (clock w))]\<rparr>)
      | Some (Directory _) \<Rightarrow> make_dirs ds w
      | Some (RegFile _ _ _) \<Rightarrow> (Inl NotADirectoryError, w))"

definition ancestors :: "string \<Rightarrow> string list" where
  \<comment> \<open>the directories above a path, outermost first\<close>
  "ancestors p = map (\<lambda>i. take i p) (filter (\<lambda>i. p ! i = CHR ''/'') [1 ..< length p])"

definition makedirs_parent :: "loc \<Rightarrow> world \<Rightarrow> (error + unit) \<times> world" where
  \<comment> \<open>\<^verbatim>\<open>os.makedirs(os.path.dirname(dpath), exist_ok=True)\<close>\<close>
  "makedirs_parent l w =
     (case l of
        Outside p \<Rightarrow> make_dirs (ancestors p) w
      | Below n k \<Rightarrow>
          (case map_of (store w) n of
             None \<Rightarrow> (Inr (), w\<lparr>store := store w @ [(n, PayloadDir [])]\<rparr>)
           | Some (PayloadDir _) \<Rightarrow> (Inr (), w)
           | Some (JsonFile _) \<Rightarrow> (Inl NotADirectoryError, w))
      | Entry n \<Rightarrow> (Inr (), w))"

definition copy2 :: "loc \<Rightarrow> loc \<Rightarrow> world \<Rightarrow> (error + unit) \<times> world" where
  \<comment> \<open>\<^verbatim>\<open>shutil.copy2(spath, dpath)\<close>\<close>
  "copy2 spath dpath w =
     (if spath = dpath then (Inl SameFileError, w)
      else (case read_node w spath of
              Inl err \<Rightarrow> (Inl err, w)
            | Inr f \<Rightarrow> write_node dpath f w))"

fun copy_by_rcf :: "engine \<Rightarrow> string list \<Rightarrow> loc \<Rightarrow> loc \<Rightarrow> world \<Rightarrow> (error + unit) \<times> world" where
  "copy_by_rcf e [] src_dir dest_dir w = (Inr (), w)"
| "copy_by_rcf e (k # ks) src_dir dest_dir w =
     (let spath = loc_join src_dir k
      in if path_exists w spath
         then (let dpath = loc_join dest_dir k
               in if \<not> dry_run e
                  then (case makedirs_parent dpath w of
                          (Inl err, w1) \<Rightarrow> (Inl err, w1)
                        | (Inr _, w1) \<Rightarrow>
                            (case copy2 spath dpath w1 of
                               (Inl err, w2) \<Rightarrow> (Inl err, w2)
                             | (Inr _, w2) \<Rightarrow> copy_by_rcf e ks src_dir dest_dir w2))
                  else copy_by_rcf e ks src_dir dest_dir w)
         else copy_by_rcf e ks src_dir dest_dir w)"

fun copy_roots_in ::
  "engine \<Rightarrow> string list \<Rightarrow> (string \<times> string) list \<Rightarrow> loc \<Rightarrow> world \<Rightarrow> (error + unit) \<times> world" where
  \<comment> \<open>the loop \<^verbatim>\<open>for src_dir, suffix in gameRoots.items()\<close> of \<^verbatim>\<open>_copy_all_to_saveinfo\<close>\<close>
  "copy_roots_in e rcf [] dest_basename w = (Inr (), w)"
| "copy_roots_in e rcf ((src_dir, sfx) # rs) dest_basename w =
     (case copy_by_rcf e rcf (Outside src_dir) (loc_append dest_basename sfx) w of
        (Inl err, w') \<Rightarrow> (Inl err, w')
      | (Inr _, w') \<Rightarrow> copy_roots_in e rcf rs dest_basename w')"

definition copy_phase :: "engine \<Rightarrow> save_info \<Rightarrow> string list \<Rightarrow> world \<Rightarrow> (error + unit) \<times> world" where
  \<comment> \<open>the body of the \<^verbatim>\<open>try\<close> of \<^verbatim>\<open>_copy_all_to_saveinfo\<close>\<close>
  "copy_phase e si rcf w =
     (case get_game_roots (si_game_info si) of
        Inl err \<Rightarrow> (Inl err, w)
      | Inr gameRoots \<Rightarrow> copy_roots_in e rcf gameRoots (saveinfo_to_dir si) w)"

definition copy_all_to_saveinfo ::
  "engine \<Rightarrow> save_info \<Rightarrow> string list \<Rightarrow> world \<Rightarrow> (error + unit) \<times> world" where
  \<comment> \<open>\<^verbatim>\<open>except: self._delete_savedir(save_info["filename"]); raise\<close>\<close>
  "copy_all_to_saveinfo e si rcf w =
     (case copy_phase e si rcf w of
        (Inl err, w') \<Rightarrow>
          (case delete_savedir e (filename si) w' of
             (Inl err2, w'') \<Rightarrow> (Inl err2, w'')
           | (Inr _, w'') \<Rightarrow> (Inl err, w''))
      | (Inr u, w') \<Rightarrow> (Inr u, w'))"



definition py_max :: "int list \<Rightarrow> error + int" where
  \<comment> \<open>\<^verbatim>\<open>max(xs)\<close>: \<^verbatim>\<open>ValueError\<close> on an empty sequence\<close>
  "py_max xs = (case xs of [] \<Rightarrow> Inl ValueError | x # ys \<Rightarrow> Inr (fold max ys x))"

fun collect :: "(error + 'a) list \<Rightarrow> error + 'a list" where
  \<comment> \<open>the values of a lazy \<^verbatim>\<open>map\<close> in order, up to the first exception\<close>
  "collect [] = Inr []"
| "collect (Inl err # _) = Inl err"
| "collect (Inr x # rs) = (case collect rs of Inl err \<Rightarrow> Inl err | Inr xs \<Rightarrow> Inr (x # xs))"

definition get_directory_timestamp :: "world \<Rightarrow> string list \<Rightarrow> string \<Rightarrow> error + int" where
  "get_directory_timestamp w rcf src_dir =
     (let paths = map (\<lambda>k. Outside (path_join src_dir k)) rcf;
          full = filter (path_exists w) paths
      in ebind (collect (map (getmtime w) full)) py_max)"

definition get_rcf_timestamp :: "world \<Rightarrow> string list \<Rightarrow> game_info \<Rightarrow> error + int" where
  "get_rcf_timestamp w rcf gi =
     ebind (get_game_roots gi) (\<lambda>roots.
     ebind (collect (map (get_directory_timestamp w rcf) (map fst roots))) py_max)"

definition get_newest_save :: "engine \<Rightarrow> int \<Rightarrow> world \<Rightarrow> save_info option \<times> world" where
  "get_newest_save e gid w =
     (case get_saveinfos e w of
        (infos, w') \<Rightarrow> (find (\<lambda>x. game_id (si_game_info x) = gid \<and> \<not> is_undo x) infos, w'))"

datatype backup_result =
    NothingToBackUp
  | WouldBackUp
  | Saved save_info

text \<open>
  \<^verbatim>\<open>do_backup\<close> returns \<^verbatim>\<open>None\<close> (\<open>NothingToBackUp\<close>), the empty placeholder of a dry run
  (\<open>WouldBackUp\<close>) or the new snapshot record. The result comes with the game record
  (updated in place by \<^verbatim>\<open>_read_rcf\<close>), the engine and the file system.
\<close>

definition unchanged_since ::
  "engine \<Rightarrow> save_info option \<Rightarrow> string list \<Rightarrow> game_info \<Rightarrow> world \<Rightarrow> error + bool" where
  \<comment> \<open>the test that skips the backup\<close>
  "unchanged_since e newest_save rcf gi w =
     (case newest_save of
        None \<Rightarrow> Inr False
      | Some newest \<Rightarrow>
          if ignore_unchanged e
          then ebind (get_rcf_timestamp w rcf gi) (\<lambda>game_timestamp.
                 Inr (timestamp newest > game_timestamp))
          else Inr False)"

definition take_snapshot ::
  "engine \<Rightarrow> game_info \<Rightarrow> string list \<Rightarrow> bool \<Rightarrow> world \<Rightarrow> (error + backup_result) \<times> engine \<times> world" where
  \<comment> \<open>the branch \<^verbatim>\<open>if not dry_run:\<close> of \<^verbatim>\<open>do_backup\<close>\<close>
  "take_snapshot e gi rcf apply_last_used w =
     (case create_savedir e gi False w of
        (Inl err, w1) \<Rightarrow> (Inl err, e, w1)
      | (Inr saveInfo, w1) \<Rightarrow>
          (case copy_all_to_saveinfo e saveInfo rcf w1 of
             (Inl err, w2) \<Rightarrow> (Inl err, e, w2)
           | (Inr _, w2) \<Rightarrow>
               let e' = (if apply_last_used then e\<lparr>last_used_save_info := Some saveInfo\<rparr> else e)
               in (case cull_old_saves e' w2 of
                     (Inl err, w3) \<Rightarrow> (Inl err, e', w3)
                   | (Inr _, w3) \<Rightarrow> (Inr (Saved saveInfo), e', w3))))"


definition do_backup ::
  "engine \<Rightarrow> game_info \<Rightarrow> bool \<Rightarrow> bool \<Rightarrow> world
     \<Rightarrow> (error + backup_result) \<times> game_info \<times> engine \<times> world" where
  "do_backup e gi apply_last_used dry w =
     (case read_rcf e gi w of
        Inl err \<Rightarrow> (Inl err, gi, e, w)
      | Inr (None, gi') \<Rightarrow> (Inr NothingToBackUp, gi', e, w)
      | Inr (Some rcf, gi') \<Rightarrow>
          if rcf = [] then (Inr NothingToBackUp, gi', e, w)
          else (case get_newest_save e (game_id gi') w of
                  (newest_save, w0) \<Rightarrow>
                    (case unchanged_since e newest_save rcf gi' w0 of
                       Inl err \<Rightarrow> (Inl err, gi', e, w0)
                     | Inr True \<Rightarrow> (Inr NothingToBackUp, gi', e, w0)
                     | Inr False \<Rightarrow>
                         if \<not> dry
                         then (case take_snapshot e gi' rcf apply_last_used w0 of
                                 (r, e', w') \<Rightarrow> (r, gi', e', w'))
                         else (Inr WouldBackUp, gi', e, w0))))"




section \<open>Example data\<close>

text \<open>Concrete engines, games and file systems, for the closed theorems below.\<close>
definition quoted :: "string \<Rightarrow> string" where
  "quoted s = CHR 0x22 # s @ [CHR 0x22]"

definition text_of_lines :: "string list \<Rightarrow> string" where
  "text_of_lines ls = concat (map (\<lambda>l. l @ [CHR 0x0A]) ls)"

definition manifest_text :: "string list \<Rightarrow> string" where
  \<comment> \<open>a \<^verbatim>\<open>remotecache.vdf\<close> of game 1 that lists the given files\<close>
  "manifest_text ks =
     text_of_lines
       ([quoted ''1'', ''{'', CHR 0x09 # quoted ''ChangeNumber'' @ [CHR 0x09, CHR 0x09] @ quoted ''4'']
        @ concat (map (\<lambda>k. [CHR 0x09 # quoted k, CHR 0x09 # ''{'',
                               [CHR 0x09, CHR 0x09] @ quoted ''size'' @ [CHR 0x09, CHR 0x09] @ quoted ''3'',
                               CHR 0x09 # ''}'']) ks)
        @ [''}''])"

definition E0 :: engine where
  "E0 = \<lparr>app_data_dir = ''/data'', steam_dir = ''/steam'', account_ids = [7], dry_run = False,
         max_saves = 50, ignore_unchanged = True, last_used_save_info = None\<rparr>"

definition G1 :: game_info where
  "G1 = \<lparr>install_root = ''/steam'', game_id = 1, game_name = ''g'',
         save_games_roots = Some [(''/g'', [])], save_games_root = None\<rparr>"

definition snap :: "bool \<Rightarrow> int \<Rightarrow> save_info" where
  "snap undo ts =
     \<lparr>si_game_info = G1, timestamp = ts, filename = snapshot_name undo 1 ts, is_undo = undo\<rparr>"

definition manifest_file :: "string \<times> fnode" where
  "manifest_file = (''/steam/userdata/7/1/remotecache.vdf'', RegFile True 1 (manifest_text [''a.sav'']))"

definition W3 :: world where
  "W3 = \<lparr>clock = 9, ext = [],
         store = [(''save_1_5.json'', JsonFile NotJson), (''save_1_5'', PayloadDir []),
                  (''save_1_7.json'', JsonFile (Doc (snap False 7))),
                  (''undo_1_6.json'', JsonFile (Doc (snap True 6))),
                  (''save_1_8.json'', JsonFile (Doc (snap False 8)))]\<rparr>"

definition W9 :: world where
  "W9 = \<lparr>clock = 9, ext = [manifest_file],
         store = [(''save_1_5.json'', JsonFile (Doc (snap False 5))),
                  (''save_1_5'', PayloadDir [(''a.sav'', 4, ''abc'')])]\<rparr>"










section \<open>The greedy matcher\<close>

lemma all_le_Suc: "(\<forall>n \<le> Suc L. P n) \<longleftrightarrow> P 0 \<and> (\<forall>n \<le> L. P (Suc n))"
  by (metis Suc_le_mono le0 not0_implies_Suc)

lemma greedy_None_iff:
  "greedy p k t s = None \<longleftrightarrow> (\<forall>n \<le> length (takeWhile p s). k (t @ take n s) (drop n s) = None)"
proof (induction s arbitrary: t)
  case Nil
  then show ?case by simp
next
  case (Cons c cs)
  show ?case
  proof (cases "p c")
    case True
    let ?L = "length (takeWhile p cs)"
    have "(\<forall>n \<le> length (takeWhile p (c # cs)). k (t @ take n (c # cs)) (drop n (c # cs)) = None)
       \<longleftrightarrow> k t (c # cs) = None \<and> (\<forall>n \<le> ?L. k ((t @ [c]) @ take n cs) (drop n cs) = None)"
      using True all_le_Suc[of ?L "\<lambda>n. k (t @ take n (c # cs)) (drop n (c # cs)) = None"] by simp
    moreover have "greedy p k t (c # cs) = None \<longleftrightarrow> greedy p k (t @ [c]) cs = None \<and> k t (c # cs) = None"
      using True by (simp split: option.splits)
    ultimately show ?thesis using Cons.IH[of "t @ [c]"] by blast
  next
    case False
    then show ?thesis by simp
  qed
qed

lemma pick_last_unique:
  fixes K :: "nat \<Rightarrow> 'a option"
  assumes nL: "n \<le> L" and Kn: "K (Suc n) = Some r'"
    and above: "\<And>m. n < m \<Longrightarrow> m \<le> L \<Longrightarrow> K (Suc m) = None"
  shows "(\<exists>j \<le> Suc L. K j = Some r \<and> (\<forall>m. j < m \<and> m \<le> Suc L \<longrightarrow> K m = None)) \<longleftrightarrow> r' = r"
proof
  assume "\<exists>j \<le> Suc L. K j = Some r \<and> (\<forall>m. j < m \<and> m \<le> Suc L \<longrightarrow> K m = None)"
  then obtain j where j1: "j \<le> Suc L" and j2: "K j = Some r"
    and j3: "\<And>m. j < m \<Longrightarrow> m \<le> Suc L \<Longrightarrow> K m = None" by blast
  have "j = Suc n"
  proof (rule ccontr)
    assume ne: "j \<noteq> Suc n"
    show False
    proof (cases "j < Suc n")
      case True
      have "Suc n \<le> Suc L" using nL by simp
      from j3[OF True this] Kn show False by simp
    next
      case False
      with ne have lt: "Suc n < j" by simp
      then obtain j' where jj: "j = Suc j'" by (cases j) simp_all
      have "n < j'" "j' \<le> L" using lt j1 jj by simp_all
      from above[OF this] j2 jj show False by simp
    qed
  qed
  then show "r' = r" using j2 Kn by simp
next
  assume b: "r' = r"
  have "\<forall>m. Suc n < m \<and> m \<le> Suc L \<longrightarrow> K m = None"
  proof (intro allI impI)
    fix m assume a: "Suc n < m \<and> m \<le> Suc L"
    then obtain m' where mm: "m = Suc m'" by (cases m) simp_all
    have "n < m'" "m' \<le> L" using a mm by simp_all
    from above[OF this] mm show "K m = None" by simp
  qed
  moreover have "Suc n \<le> Suc L" using nL by simp
  moreover have "K (Suc n) = Some r" using Kn b by simp
  ultimately show "\<exists>j \<le> Suc L. K j = Some r \<and> (\<forall>m. j < m \<and> m \<le> Suc L \<longrightarrow> K m = None)"
    by (intro exI[of _ "Suc n"] conjI)
qed

lemma pick_zero:
  fixes K :: "nat \<Rightarrow> 'a option"
  assumes none: "\<And>n. n \<le> L \<Longrightarrow> K (Suc n) = None"
  shows "(\<exists>j \<le> Suc L. K j = Some r \<and> (\<forall>m. j < m \<and> m \<le> Suc L \<longrightarrow> K m = None)) \<longleftrightarrow> K 0 = Some r"
proof
  assume "\<exists>j \<le> Suc L. K j = Some r \<and> (\<forall>m. j < m \<and> m \<le> Suc L \<longrightarrow> K m = None)"
  then obtain j where j1: "j \<le> Suc L" and j2: "K j = Some r" by blast
  show "K 0 = Some r"
  proof (cases j)
    case 0 then show ?thesis using j2 by simp
  next
    case (Suc j')
    then have "j' \<le> L" using j1 by simp
    from none[OF this] j2 Suc show ?thesis by simp
  qed
next
  assume b: "K 0 = Some r"
  have "\<forall>m. 0 < m \<and> m \<le> Suc L \<longrightarrow> K m = None"
  proof (intro allI impI)
    fix m assume a: "0 < m \<and> m \<le> Suc L"
    then obtain m' where mm: "m = Suc m'" by (cases m) simp_all
    have "m' \<le> L" using a mm by simp
    from none[OF this] mm show "K m = None" by simp
  qed
  then show "\<exists>j \<le> Suc L. K j = Some r \<and> (\<forall>m. j < m \<and> m \<le> Suc L \<longrightarrow> K m = None)"
    using b by (intro exI[of _ 0] conjI) simp_all
qed

lemma greedy_Some_iff:
  "greedy p k t s = Some r \<longleftrightarrow>
     (\<exists>n \<le> length (takeWhile p s). k (t @ take n s) (drop n s) = Some r
        \<and> (\<forall>m. n < m \<and> m \<le> length (takeWhile p s) \<longrightarrow> k (t @ take m s) (drop m s) = None))"
proof (induction s arbitrary: t r)
  case Nil
  then show ?case by simp
next
  case (Cons c cs)
  define K where "K = (\<lambda>n. k (t @ take n (c # cs)) (drop n (c # cs)))"
  define L where "L = length (takeWhile p cs)"
  have KS: "\<And>n. k ((t @ [c]) @ take n cs) (drop n cs) = K (Suc n)" by (simp add: K_def)
  have K0: "k t (c # cs) = K 0" by (simp add: K_def)
  show ?case
  proof (cases "p c")
    case False
    then show ?thesis by simp
  next
    case True
    have len: "length (takeWhile p (c # cs)) = Suc L" using True by (simp add: L_def)
    have goal: "(\<exists>n \<le> length (takeWhile p (c # cs)). k (t @ take n (c # cs)) (drop n (c # cs)) = Some r
        \<and> (\<forall>m. n < m \<and> m \<le> length (takeWhile p (c # cs)) \<longrightarrow> k (t @ take m (c # cs)) (drop m (c # cs)) = None))
       \<longleftrightarrow> (\<exists>j \<le> Suc L. K j = Some r \<and> (\<forall>m. j < m \<and> m \<le> Suc L \<longrightarrow> K m = None))"
      unfolding K_def len by (rule refl)
    show ?thesis
    proof (cases "greedy p k (t @ [c]) cs")
      case None
      have all: "\<And>n. n \<le> L \<Longrightarrow> K (Suc n) = None"
        using None[unfolded greedy_None_iff KS] unfolding L_def by blast
      have g: "greedy p k t (c # cs) = K 0" using True None K0 by simp
      have pz: "(\<exists>j \<le> Suc L. K j = Some r \<and> (\<forall>m. j < m \<and> m \<le> Suc L \<longrightarrow> K m = None)) \<longleftrightarrow> K 0 = Some r"
        by (rule pick_zero) (rule all)
      show ?thesis unfolding goal g pz by (rule refl)
    next
      case (Some r')
      have g: "greedy p k t (c # cs) = Some r'" using True Some by simp
      from Some[unfolded Cons.IH[of "t @ [c]" r'] KS] obtain n where n: "n \<le> L" "K (Suc n) = Some r'"
        and n3: "\<And>m. n < m \<Longrightarrow> m \<le> L \<Longrightarrow> K (Suc m) = None"
        unfolding L_def by blast
      have pl: "(\<exists>j \<le> Suc L. K j = Some r \<and> (\<forall>m. j < m \<and> m \<le> Suc L \<longrightarrow> K m = None)) \<longleftrightarrow> r' = r"
        by (rule pick_last_unique) (fact n(1), fact n(2), erule n3, assumption)
      have eq: "(Some r' = Some r) = (r' = r)" by simp
      show ?thesis unfolding goal g pl eq by (rule refl)
    qed
  qed
qed


lemma star_Some_iff:
  "star p k s = Some r \<longleftrightarrow>
     (\<exists>n \<le> length (takeWhile p s). k (take n s) (drop n s) = Some r
        \<and> (\<forall>m. n < m \<and> m \<le> length (takeWhile p s) \<longrightarrow> k (take m s) (drop m s) = None))"
  unfolding star_def greedy_Some_iff by simp

lemma plus_Some_iff:
  "plus p k s = Some r \<longleftrightarrow>
     (\<exists>n \<le> length (takeWhile p s). 0 < n \<and> k (take n s) (drop n s) = Some r
        \<and> (\<forall>m. n < m \<and> m \<le> length (takeWhile p s) \<longrightarrow> k (take m s) (drop m s) = None))"
proof (cases s)
  case Nil
  then show ?thesis by (simp add: plus_def)
next
  case (Cons c cs)
  show ?thesis
  proof (cases "p c")
    case False
    then show ?thesis using Cons by (simp add: plus_def)
  next
    case True
    define K where "K = (\<lambda>n. k (take n (c # cs)) (drop n (c # cs)))"
    define L where "L = length (takeWhile p cs)"
    have len: "length (takeWhile p (c # cs)) = Suc L" using True by (simp add: L_def)
    have KS: "\<And>n. k ([c] @ take n cs) (drop n cs) = K (Suc n)" by (simp add: K_def)
    have lhs: "plus p k s = Some r \<longleftrightarrow>
        (\<exists>n \<le> L. K (Suc n) = Some r \<and> (\<forall>m. n < m \<and> m \<le> L \<longrightarrow> K (Suc m) = None))"
      using True Cons unfolding plus_def L_def KS[symmetric] by (simp add: greedy_Some_iff)
    have rhs: "(\<exists>n \<le> length (takeWhile p s). 0 < n \<and> k (take n s) (drop n s) = Some r
        \<and> (\<forall>m. n < m \<and> m \<le> length (takeWhile p s) \<longrightarrow> k (take m s) (drop m s) = None))
       \<longleftrightarrow> (\<exists>j \<le> Suc L. 0 < j \<and> K j = Some r \<and> (\<forall>m. j < m \<and> m \<le> Suc L \<longrightarrow> K m = None))"
      unfolding Cons K_def len by (rule refl)
    have "(\<exists>n \<le> L. K (Suc n) = Some r \<and> (\<forall>m. n < m \<and> m \<le> L \<longrightarrow> K (Suc m) = None))
       \<longleftrightarrow> (\<exists>j \<le> Suc L. 0 < j \<and> K j = Some r \<and> (\<forall>m. j < m \<and> m \<le> Suc L \<longrightarrow> K m = None))"
      (is "?A \<longleftrightarrow> ?B")
    proof
      assume ?A
      then obtain n where n: "n \<le> L" "K (Suc n) = Some r"
        and n3: "\<And>m. n < m \<Longrightarrow> m \<le> L \<Longrightarrow> K (Suc m) = None" by blast
      have "\<forall>m. Suc n < m \<and> m \<le> Suc L \<longrightarrow> K m = None"
      proof (intro allI impI)
        fix m assume a: "Suc n < m \<and> m \<le> Suc L"
        then obtain m' where mm: "m = Suc m'" by (cases m) simp_all
        have "n < m'" "m' \<le> L" using a mm by simp_all
        from n3[OF this] mm show "K m = None" by simp
      qed
      moreover have "Suc n \<le> Suc L" "0 < Suc n" using n(1) by simp_all
      ultimately show ?B using n(2) by (intro exI[of _ "Suc n"] conjI)
    next
      assume ?B
      then obtain j where j: "j \<le> Suc L" "0 < j" "K j = Some r"
        and j3: "\<And>m. j < m \<Longrightarrow> m \<le> Suc L \<Longrightarrow> K m = None" by blast
      from j(2) obtain n where jn: "j = Suc n" by (cases j) simp_all
      have "\<forall>m. n < m \<and> m \<le> L \<longrightarrow> K (Suc m) = None"
      proof (intro allI impI)
        fix m assume a: "n < m \<and> m \<le> L"
        have "j < Suc m" "Suc m \<le> Suc L" using a jn by simp_all
        from j3[OF this] show "K (Suc m) = None" .
      qed
      moreover have "n \<le> L" using j(1) jn by simp
      moreover have "K (Suc n) = Some r" using j(3) jn by simp
      ultimately show ?A by (intro exI[of _ n] conjI)
    qed
    then show ?thesis unfolding lhs rhs .
  qed
qed


section \<open>Theorems\<close>

text \<open>
  C6. The scan compares each entry with its predecessor only, and a pair in which one
  entry is a prefix of the other lowers nothing. For the entries
  \<^verbatim>\<open>a/bc/x\<close>, \<^verbatim>\<open>a/b\<close>, \<^verbatim>\<open>a/bc/y\<close> the longest common prefix is \<^verbatim>\<open>a/b\<close>, which trims
  to \<^verbatim>\<open>a\<close>; the marker directory \<^verbatim>\<open>root/a/bc\<close> does not end with it and should come back
  unchanged. The code keeps \<^verbatim>\<open>a/bc/y\<close> whole, trims it to \<^verbatim>\<open>a/bc\<close> and returns \<^verbatim>\<open>root\<close>.
\<close>

theorem find_save_root_not_common_prefix:
  "find_save_root_from_autoclouds [''a/bc/x'', ''a/b'', ''a/bc/y''] ''root/a/bc'' = Some ''root''
   \<and> spec_trimmed_prefix [''a/bc/x'', ''a/b'', ''a/bc/y''] = ''a''
   \<and> spec_save_root [''a/bc/x'', ''a/b'', ''a/bc/y''] ''root/a/bc'' = ''root/a/bc''"
  by (simp add: find_save_root_from_autoclouds_def spec_trimmed_prefix_def spec_save_root_def
      slice_to_def slice_from_def rfind_def normpath_def startswith_def endswith_def)

section \<open>Deleting, listing and the change test\<close>

lemma world_store_same: "w\<lparr>store := store w\<rparr> = w"
  by simp








lemmas str_nat_eval =
  str_nat.simps[of "numeral k" for k] str_nat.simps[of 0] str_nat.simps[of "Suc 0"]

lemmas example_defs =
  E0_def G1_def snap_def manifest_file_def manifest_text_def text_of_lines_def quoted_def
  snapshot_name_def str_int_def str_nat_eval

lemma read_rcf_W9: "read_rcf E0 G1 W9 = Inr (Some [''a.sav''], G1)"
  by (simp add: read_rcf_def get_gamedir_def ebind_def W9_def example_defs path_join_def
      startswith_def endswith_def strip_def is_space_def)

lemma attempt_all_world: "snd (attempt_all e fs w) = w"
proof (induction fs arbitrary: w)
  case Nil
  then show ?case by simp
next
  case (Cons f fs)
  have w: "snd (file_to_saveinfo e f w) = w"
    by (simp add: file_to_saveinfo_def os_remove_def split: option.splits entry.splits json_doc.splits)
  obtain r where r: "file_to_saveinfo e f w = (r, w)"
    using w by (metis prod.collapse)
  obtain sis where sis: "attempt_all e fs w = (sis, w)"
    using Cons.IH[of w] by (metis prod.collapse)
  show ?case
  proof (cases r)
    case (Inl a)
    then show ?thesis using r sis by simp
  next
    case (Inr si)
    then show ?thesis using r sis by simp
  qed
qed

lemma get_saveinfos_world: "snd (get_saveinfos e w) = w"
proof -
  obtain sis where "attempt_all e (filter (\<lambda>f. endswith f ''.json'') (map fst (store w))) w = (sis, w)"
    using attempt_all_world[of e _ w] by (metis prod.collapse)
  then show ?thesis by (simp add: get_saveinfos_def Let_def)
qed

lemma get_newest_save_world: "snd (get_newest_save e gid w) = w"
proof -
  obtain sis where "get_saveinfos e w = (sis, w)"
    using get_saveinfos_world[of e w] by (metis prod.collapse)
  then show ?thesis by (simp add: get_newest_save_def)
qed

lemma read_rcf_cached:
  "save_games_roots gi = Some roots \<Longrightarrow> read_rcf e gi w = Inr (r, gi') \<Longrightarrow> gi' = gi"
  by (auto simp: read_rcf_def ebind_def split: sum.splits)

lemma no_file_ValueError:
  assumes "\<forall>k \<in> set rcf. \<not> path_exists w (Outside (path_join r k))"
  shows "get_directory_timestamp w rcf r = Inl ValueError"
proof -
  have "filter (path_exists w) (map (\<lambda>k. Outside (path_join r k)) rcf) = []"
    using assms by (simp add: filter_empty_conv)
  then show ?thesis by (simp add: get_directory_timestamp_def ebind_def py_max_def)
qed

lemma rcf_timestamp_ValueError:
  assumes "save_games_roots gi = Some roots"
    and "\<forall>r \<in> fst ` set roots. \<forall>k \<in> set rcf. \<not> path_exists w (Outside (path_join r k))"
  shows "get_rcf_timestamp w rcf gi = Inl ValueError"
proof (cases roots)
  case Nil
  then show ?thesis using assms(1)
    by (simp add: get_rcf_timestamp_def get_game_roots_def ebind_def py_max_def)
next
  case (Cons p ps)
  have "get_directory_timestamp w rcf (fst p) = Inl ValueError"
    using assms(2) Cons by (intro no_file_ValueError) simp
  then show ?thesis using assms(1) Cons
    by (simp add: get_rcf_timestamp_def get_game_roots_def ebind_def)
qed


text \<open>
  C3. A sidecar that is not JSON is left out of the listing, and the listing succeeds,
  sorted newest first with the undo snapshots in front; but the file is not deleted. In
  the handler of the parse error the source calls \<^verbatim>\<open>os.remove\<close> on the open file object
  instead of its path, which raises \<^verbatim>\<open>TypeError\<close>; \<^verbatim>\<open>attempt_saveinfo\<close> catches it, and
  the corrupt file is still there after the call.
\<close>

theorem corrupt_sidecar_is_not_deleted:
  "file_to_saveinfo E0 ''save_1_5.json'' W3 = (Inl TypeError, W3)
   \<and> get_saveinfos E0 W3 = ([snap True 6, snap False 8, snap False 7], W3)
   \<and> map_of (store (snd (get_saveinfos E0 W3))) ''save_1_5.json'' = Some (JsonFile NotJson)"
  by (simp add: get_saveinfos_def W3_def endswith_def file_to_saveinfo_def os_remove_def
      upgrade_legacy_def snap_def G1_def is_OSError_def)

text \<open>
  C9. With change detection on, cached save roots, a manifest that lists at least one
  file, an earlier regular snapshot of the game, and none of the listed files present
  under any cached root, \<^verbatim>\<open>do_backup\<close> ends in the \<^verbatim>\<open>ValueError\<close> of \<^verbatim>\<open>max\<close> over an
  empty sequence.
\<close>

theorem backup_raises_ValueError_when_no_file_exists:
  assumes "ignore_unchanged e"
    and "save_games_roots gi = Some roots"
    and "read_rcf e gi w = Inr (Some rcf, gi')"
    and "rcf \<noteq> []"
    and "fst (get_newest_save e (game_id gi) w) = Some newest"
    and "\<forall>r \<in> fst ` set roots. \<forall>k \<in> set rcf. \<not> path_exists w (Outside (path_join r k))"
  shows "fst (do_backup e gi apply_last_used dry w) = Inl ValueError"
proof -
  have gi: "gi' = gi" using assms(2,3) by (rule read_rcf_cached)
  have n: "get_newest_save e (game_id gi) w = (Some newest, w)"
    using assms(5) get_newest_save_world[of e "game_id gi" w] by (metis prod.collapse)
  have t: "get_rcf_timestamp w rcf gi = Inl ValueError"
    using assms(2,6) by (rule rcf_timestamp_ValueError)
  show ?thesis
    using assms(1,3,4) gi n t by (simp add: do_backup_def unchanged_since_def ebind_def)
qed

theorem backup_raises_ValueError_witness:
  "fst (do_backup E0 G1 False False W9) = Inl ValueError"
proof -
  have 1: "ignore_unchanged E0" by (simp add: E0_def)
  have 2: "save_games_roots G1 = Some [(''/g'', [])]" by (simp add: G1_def)
  have 4: "[''a.sav''] \<noteq> []" by simp
  have 5: "fst (get_newest_save E0 (game_id G1) W9) = Some (snap False 5)"
    by (simp add: get_newest_save_def get_saveinfos_def attempt_all.simps file_to_saveinfo_def
        upgrade_legacy_def W9_def endswith_def example_defs)
  have 6: "\<forall>r \<in> fst ` set [(''/g'', [])]. \<forall>k \<in> set [''a.sav''].
             \<not> path_exists W9 (Outside (path_join r k))"
    by (simp add: path_exists_def W9_def path_join_def startswith_def endswith_def manifest_file_def)
  show ?thesis
    by (rule backup_raises_ValueError_when_no_file_exists[OF 1 2 read_rcf_W9 4 5 6])
qed



section \<open>Taking a snapshot: the sidecar, the copy phase, the cleanup\<close>

lemma world_eqI:
  "clock a = clock b \<Longrightarrow> ext a = ext b \<Longrightarrow> store a = store b \<Longrightarrow> (a::world) = b"
  by simp










lemma not_prefixed: "\<not> (\<not> startswith (fname @ sfx) fname)"
  by (simp add: startswith_def)











section \<open>Reading the change manifest\<close>







end
